theory Spec2Isabelle
  imports Main "HOL-Library.AList"
begin

section \<open>Python values used by the plugin\<close>

text \<open>
  The plugin under verification is \<^verbatim>\<open>plugins/filesoftlink/__init__.py\<close>: a directory
  mirror that materializes every file of a watched source tree as a symbolic link or a
  copy in a destination tree. Exceptions are values: every operation returns the file
  system it leaves behind together with the exception it raised, if any. The attribute
  error carries the name of the attribute that was missing.
\<close>

datatype exn =
    AttributeError string
  | TypeError
  | ValueError
  | IndexError
  | ReError
  | FileExistsError
  | FileNotFoundError
  | NotADirectoryError
  | IsADirectoryError
  | SameFileError
  | LoopError

subsection \<open>Strings\<close>

text \<open>\<^verbatim>\<open>s.split(sep)\<close> for a one-character separator: never the empty list.\<close>

fun split_on :: "char \<Rightarrow> string \<Rightarrow> string list" where
  "split_on c [] = [[]]"
| "split_on c (x # xs) =
     (if x = c then [] # split_on c xs
      else (case split_on c xs of [] \<Rightarrow> [[x]] | y # ys \<Rightarrow> (x # y) # ys))"

text \<open>\<^verbatim>\<open>sep.join(parts)\<close>.\<close>

fun join_with :: "string \<Rightarrow> string list \<Rightarrow> string" where
  "join_with sep [] = []"
| "join_with sep [x] = x"
| "join_with sep (x # y # ys) = x @ sep @ join_with sep (y # ys)"

text \<open>\<^verbatim>\<open>t in s\<close> for two strings: \<open>t\<close> occurs in \<open>s\<close> as a contiguous block.\<close>

fun is_substring :: "string \<Rightarrow> string \<Rightarrow> bool" where
  "is_substring t [] = (t = [])"
| "is_substring t (x # xs) = (take (length t) (x # xs) = t \<or> is_substring t xs)"

subsection \<open>Paths\<close>

text \<open>
  A \<^verbatim>\<open>pathlib.PurePosixPath\<close> is its root (empty, one slash or two slashes) and its
  list of components; the constructor drops empty components and single dots.
\<close>

datatype ppath = PPath (proot: string) (pcomps: "string list")

definition Path_of :: "string \<Rightarrow> ppath" where
  "Path_of s =
     PPath (if take 2 s = ''//'' \<and> take 3 s \<noteq> ''///'' then ''//''
            else if take 1 s = ''/'' then ''/'' else [])
           (filter (\<lambda>c. c \<noteq> [] \<and> c \<noteq> ''.'') (split_on CHR ''/'' s))"

definition str_of :: "ppath \<Rightarrow> string" where
  "str_of p =
     (if proot p = [] \<and> pcomps p = [] then ''.''
      else proot p @ join_with ''/'' (pcomps p))"

text \<open>
  \<^verbatim>\<open>p.relative_to(other)\<close> raises ValueError unless \<open>other\<close> has the root of \<open>p\<close>
  and its components are a prefix of those of \<open>p\<close>.
\<close>

definition is_relative_to :: "ppath \<Rightarrow> ppath \<Rightarrow> bool" where
  "is_relative_to p other =
     (proot p = proot other \<and> take (length (pcomps other)) (pcomps p) = pcomps other)"

definition relative_to :: "ppath \<Rightarrow> ppath \<Rightarrow> exn + ppath" where
  "relative_to p other =
     (if is_relative_to p other
      then Inr (PPath [] (drop (length (pcomps other)) (pcomps p)))
      else Inl ValueError)"

definition joinpath :: "ppath \<Rightarrow> ppath \<Rightarrow> ppath" where
  "joinpath p q = (if proot q \<noteq> [] then q else PPath (proot p) (pcomps p @ pcomps q))"

definition parent :: "ppath \<Rightarrow> ppath" where
  "parent p = PPath (proot p) (butlast (pcomps p))"

definition name_of :: "ppath \<Rightarrow> string" where
  "name_of p = (if pcomps p = [] then [] else last (pcomps p))"

text \<open>
  \<^verbatim>\<open>p.suffix\<close>: the final component from its last dot on, when that dot is neither its
  first nor its last character.
\<close>

definition suffix_of :: "ppath \<Rightarrow> string" where
  "suffix_of p =
     (let nm = name_of p;
          k = length (takeWhile (\<lambda>c. c \<noteq> CHR ''.'') (rev nm))
      in if CHR ''.'' \<in> set nm \<and> 0 < k \<and> k + 1 < length nm
         then drop (length nm - 1 - k) nm else [])"

text \<open>
  The two kinds of value that reach the single-file materializer as its \<^verbatim>\<open>path\<close>
  argument: the watchdog event's \<^verbatim>\<open>src_path\<close> is a \<^verbatim>\<open>str\<close>, the walk of
  \<^verbatim>\<open>sync_all\<close> yields \<^verbatim>\<open>Path\<close> objects.
\<close>

datatype pathlike = PyStr string | PyPath ppath

text \<open>
  \<^verbatim>\<open>x in s\<close> with \<open>s\<close> a \<^verbatim>\<open>str\<close>: the left operand must be a string too;
  a \<^verbatim>\<open>Path\<close> there raises TypeError.
\<close>

fun py_in_str :: "pathlike \<Rightarrow> string \<Rightarrow> exn + bool" where
  "py_in_str (PyStr t) s = Inr (is_substring t s)"
| "py_in_str (PyPath p) s = Inl TypeError"

section \<open>The file system\<close>

text \<open>
  The file system is a finite table from lexical paths to nodes; its order is the
  enumeration order of a directory walk. The root and the current directory (the paths
  without components) are always directories. Paths are taken lexically: no \<^verbatim>\<open>..\<close>
  and no symbolic link in the middle of a path.
\<close>

datatype node = File string | Dir | Link ppath

type_synonym fs = "(ppath \<times> node) list"

definition fs_node :: "fs \<Rightarrow> ppath \<Rightarrow> node option" where
  "fs_node fs p = (if pcomps p = [] then Some Dir else map_of fs p)"

text \<open>
  Following the symbolic link at the end of a path, as \<^verbatim>\<open>stat\<close> does: at most 40
  links, after which the system call fails (ELOOP). A relative link is read from the
  directory of the link.
\<close>

fun follow :: "nat \<Rightarrow> fs \<Rightarrow> ppath \<Rightarrow> ppath option" where
  "follow 0 fs p = None"
| "follow (Suc n) fs p =
     (case fs_node fs p of
        Some (Link t) \<Rightarrow> follow n fs (joinpath (parent p) t)
      | _ \<Rightarrow> Some p)"

definition stat :: "fs \<Rightarrow> ppath \<Rightarrow> node option" where
  "stat fs p = (case follow 41 fs p of None \<Rightarrow> None | Some q \<Rightarrow> fs_node fs q)"

text \<open>\<^verbatim>\<open>Path.exists()\<close>, \<^verbatim>\<open>Path.is_dir()\<close> and \<^verbatim>\<open>Path.is_file()\<close> follow links.\<close>

definition exists :: "fs \<Rightarrow> ppath \<Rightarrow> bool" where
  "exists fs p = (stat fs p \<noteq> None)"

definition is_dir :: "fs \<Rightarrow> ppath \<Rightarrow> bool" where
  "is_dir fs p = (stat fs p = Some Dir)"

definition is_file :: "fs \<Rightarrow> ppath \<Rightarrow> bool" where
  "is_file fs p = (case stat fs p of Some (File c) \<Rightarrow> True | _ \<Rightarrow> False)"

text \<open>The directory an entry is to be created in must resolve to a directory.\<close>

definition dir_check :: "fs \<Rightarrow> ppath \<Rightarrow> exn option" where
  "dir_check fs d =
     (case follow 41 fs d of
        None \<Rightarrow> Some LoopError
      | Some q \<Rightarrow>
          (case fs_node fs q of
             None \<Rightarrow> Some FileNotFoundError
           | Some Dir \<Rightarrow> None
           | Some _ \<Rightarrow> Some NotADirectoryError))"

definition os_mkdir :: "fs \<Rightarrow> ppath \<Rightarrow> fs \<times> exn option" where
  "os_mkdir fs d =
     (case fs_node fs d of
        Some _ \<Rightarrow> (fs, Some FileExistsError)
      | None \<Rightarrow>
          (case dir_check fs (parent d) of
             Some e \<Rightarrow> (fs, Some e)
           | None \<Rightarrow> (AList.update d Dir fs, None)))"

text \<open>\<^verbatim>\<open>Path.mkdir(parents=False, exist_ok=True)\<close>.\<close>

definition mkdir_leaf :: "fs \<Rightarrow> ppath \<Rightarrow> fs \<times> exn option" where
  "mkdir_leaf fs d =
     (case os_mkdir fs d of
        (fs1, None) \<Rightarrow> (fs1, None)
      | (fs1, Some FileNotFoundError) \<Rightarrow> (fs1, Some FileNotFoundError)
      | (fs1, Some e) \<Rightarrow> (if is_dir fs1 d then (fs1, None) else (fs1, Some e)))"

text \<open>
  \<^verbatim>\<open>Path.mkdir(parents=True, exist_ok=True)\<close>: on FileNotFoundError the parent is made
  first, then the directory itself; any other error is ignored when the path is a
  directory already.
\<close>

function mkdir_parents :: "fs \<Rightarrow> ppath \<Rightarrow> fs \<times> exn option" where
  "mkdir_parents fs d =
     (case os_mkdir fs d of
        (fs1, None) \<Rightarrow> (fs1, None)
      | (fs1, Some FileNotFoundError) \<Rightarrow>
          (if parent d = d then (fs1, Some FileNotFoundError)
           else (case mkdir_parents fs (parent d) of
                   (fs2, Some e) \<Rightarrow> (fs2, Some e)
                 | (fs2, None) \<Rightarrow> mkdir_leaf fs2 d))
      | (fs1, Some e) \<Rightarrow> (if is_dir fs1 d then (fs1, None) else (fs1, Some e)))"
  by pat_completeness auto
termination
proof (relation "measure (\<lambda>(fs, d). length (pcomps d))")
  show "wf (measure (\<lambda>(fs, d). length (pcomps d)))" by simp
next
  fix fs :: fs and d :: ppath
  assume "parent d \<noteq> d"
  then have "pcomps d \<noteq> []"
    by (cases d) (auto simp: parent_def)
  then show "((fs, parent d), (fs, d)) \<in> measure (\<lambda>(fs, d). length (pcomps d))"
    by (simp add: parent_def)
qed

text \<open>\<^verbatim>\<open>Path.unlink()\<close> removes the entry itself, never what a link points to.\<close>

definition unlink :: "fs \<Rightarrow> ppath \<Rightarrow> fs \<times> exn option" where
  "unlink fs p =
     (case fs_node fs p of
        None \<Rightarrow> (fs, Some FileNotFoundError)
      | Some Dir \<Rightarrow> (fs, Some IsADirectoryError)
      | Some _ \<Rightarrow> (AList.delete p fs, None))"

text \<open>\<^verbatim>\<open>os.symlink(src, dst)\<close> refuses any existing entry at \<open>dst\<close>, a dangling link too.\<close>

definition os_symlink :: "fs \<Rightarrow> ppath \<Rightarrow> ppath \<Rightarrow> fs \<times> exn option" where
  "os_symlink fs src dst =
     (case fs_node fs dst of
        Some _ \<Rightarrow> (fs, Some FileExistsError)
      | None \<Rightarrow>
          (case dir_check fs (parent dst) of
             Some e \<Rightarrow> (fs, Some e)
           | None \<Rightarrow> (AList.update dst (Link src) fs, None)))"

text \<open>Opening a path for writing follows its links and creates the file they end at.\<close>

definition write_file :: "fs \<Rightarrow> ppath \<Rightarrow> string \<Rightarrow> fs \<times> exn option" where
  "write_file fs p c =
     (case follow 41 fs p of
        None \<Rightarrow> (fs, Some LoopError)
      | Some q \<Rightarrow>
          (case fs_node fs q of
             Some Dir \<Rightarrow> (fs, Some IsADirectoryError)
           | Some _ \<Rightarrow> (AList.update q (File c) fs, None)
           | None \<Rightarrow>
               (case dir_check fs (parent q) of
                  Some e \<Rightarrow> (fs, Some e)
                | None \<Rightarrow> (AList.update q (File c) fs, None))))"

definition samefile :: "fs \<Rightarrow> ppath \<Rightarrow> ppath \<Rightarrow> bool" where
  "samefile fs a b =
     (case (follow 41 fs a, follow 41 fs b) of
        (Some qa, Some qb) \<Rightarrow> fs_node fs qa \<noteq> None \<and> qa = qb
      | _ \<Rightarrow> False)"

text \<open>
  \<^verbatim>\<open>shutil.copy(src, dst)\<close>: into \<open>dst\<close> when that is a directory; refuses to copy a
  file onto itself; reads the source through its links and writes the bytes.
\<close>

definition shutil_copy :: "fs \<Rightarrow> ppath \<Rightarrow> ppath \<Rightarrow> fs \<times> exn option" where
  "shutil_copy fs src dst =
     (let dst1 = (if is_dir fs dst
                  then joinpath dst (PPath [] (if pcomps src = [] then [] else [name_of src]))
                  else dst)
      in if samefile fs src dst1 then (fs, Some SameFileError)
         else (case follow 41 fs src of
                 None \<Rightarrow> (fs, Some LoopError)
               | Some q \<Rightarrow>
                   (case fs_node fs q of
                      None \<Rightarrow> (fs, Some FileNotFoundError)
                    | Some (File c) \<Rightarrow> write_file fs dst1 c
                    | Some _ \<Rightarrow> (fs, Some IsADirectoryError))))"

text \<open>\<^verbatim>\<open>os.path.getsize\<close>: the size of what the path resolves to.\<close>

definition getsize :: "nat \<Rightarrow> fs \<Rightarrow> ppath \<Rightarrow> exn + nat" where
  "getsize dsz fs p =
     (case stat fs p of
        None \<Rightarrow> Inl FileNotFoundError
      | Some (File c) \<Rightarrow> Inr (length c)
      | Some _ \<Rightarrow> Inr dsz)"

text \<open>
  \<^verbatim>\<open>Path.rglob('*')\<close>: every entry strictly below the directory, in the table's order;
  nothing when the path is no directory.
\<close>

definition rglob :: "fs \<Rightarrow> ppath \<Rightarrow> ppath list" where
  "rglob fs d =
     (if is_dir fs d
      then filter (\<lambda>q. proot q = proot d \<and> length (pcomps d) < length (pcomps q)
                        \<and> take (length (pcomps d)) (pcomps q) = pcomps d)
             (remdups (map fst fs))
      else [])"

section \<open>The plugin\<close>

text \<open>
  What the plugin takes from the host application and from libraries that are not part
  of the repository: the platform test \<^verbatim>\<open>SystemUtils.is_windows()\<close>, the truth value
  of \<^verbatim>\<open>re.findall(pattern, text, re.IGNORECASE)\<close> (\<open>None\<close> when the pattern does not
  compile), the extension lists \<^verbatim>\<open>MediaType.ALL_VIDEO\<close> and
  \<^verbatim>\<open>MediaType.ALL_SUBTITLE\<close>, the size the file system reports for a directory, and
  \<^verbatim>\<open>str.lower()\<close>, the case mapping of the language on a whole string (Unicode, not
  only the ASCII letters).
\<close>

record env =
  is_windows :: bool
  str_lower :: "string \<Rightarrow> string"
  re_findall :: "string \<Rightarrow> string \<Rightarrow> bool option"
  ALL_VIDEO :: "string list"
  ALL_SUBTITLE :: "string list"
  dir_size :: nat

text \<open>The options \<^verbatim>\<open>init_plugin\<close> reads from its \<^verbatim>\<open>config\<close> dictionary.\<close>

record config =
  cfg_enabled :: bool
  cfg_onlyonce :: bool
  cfg_copy_files :: bool
  cfg_mode :: string
  cfg_monitor_dirs :: string
  cfg_exclude_keywords :: string
  cfg_size :: int

text \<open>The jobs \<^verbatim>\<open>init_plugin\<close> hands to the scheduler.\<close>

datatype job = StartMonitor string | SyncAllOnce

text \<open>
  The attributes of the plugin object. \<^verbatim>\<open>_dirconf\<close> is a dictionary from the source
  directory (a string) to the destination directory (a \<^verbatim>\<open>Path\<close> or \<^verbatim>\<open>None\<close>), in
  insertion order.
\<close>

record plugin =
  enabled :: bool
  onlyonce :: bool
  copy_files :: bool
  mode :: string
  monitor_dirs :: string
  exclude_keywords :: string
  size_mb :: int
  dirconf :: "(string \<times> ppath option) list"
  jobs :: "job list"

text \<open>\<^verbatim>\<open>d.get(k)\<close> on \<^verbatim>\<open>_dirconf\<close>: \<^verbatim>\<open>None\<close> for a missing key as for a stored \<^verbatim>\<open>None\<close>.\<close>

definition dict_get :: "(string \<times> ppath option) list \<Rightarrow> string \<Rightarrow> ppath option" where
  "dict_get d k = (case map_of d k of None \<Rightarrow> None | Some v \<Rightarrow> v)"

subsection \<open>The single-file materializer\<close>

text \<open>
  The list comprehension \<^verbatim>\<open>[p in str(path) for p in self._dirconf.values() if p]\<close>:
  a \<^verbatim>\<open>Path\<close> is always true, \<^verbatim>\<open>None\<close> is skipped, and the membership test is
  evaluated with the \<^verbatim>\<open>Path\<close> itself as its left operand.
\<close>

fun in_destinations :: "ppath option list \<Rightarrow> string \<Rightarrow> exn + bool list" where
  "in_destinations [] s = Inr []"
| "in_destinations (None # vs) s = in_destinations vs s"
| "in_destinations (Some p # vs) s =
     (case py_in_str (PyPath p) s of
        Inl e \<Rightarrow> Inl e
      | Inr b \<Rightarrow> (case in_destinations vs s of Inl e \<Rightarrow> Inl e | Inr bs \<Rightarrow> Inr (b # bs)))"

text \<open>The guard \<^verbatim>\<open>any([...])\<close> of \<^verbatim>\<open>__handle_file\<close>.\<close>

definition destination_guard :: "plugin \<Rightarrow> ppath \<Rightarrow> exn + bool" where
  "destination_guard self path =
     (case in_destinations (map snd (dirconf self)) (str_of path) of
        Inl e \<Rightarrow> Inl e
      | Inr bs \<Rightarrow> Inr (list_ex (\<lambda>b. b) bs))"

text \<open>The link-or-copy decision at the end of \<^verbatim>\<open>__handle_file\<close>.\<close>

definition link_or_copy :: "env \<Rightarrow> plugin \<Rightarrow> fs \<Rightarrow> ppath \<Rightarrow> ppath \<Rightarrow> fs \<times> exn option" where
  "link_or_copy env self fs path target_file =
     (if copy_files self then
        (if str_lower env (suffix_of path) \<in> set (ALL_VIDEO env @ ALL_SUBTITLE env)
         then os_symlink fs path target_file
         else shutil_copy fs path target_file)
      else os_symlink fs path target_file)"

text \<open>
  \<^verbatim>\<open>__handle_file(path, mon_path, target_path)\<close>. A \<^verbatim>\<open>str\<close> has no method
  \<^verbatim>\<open>exists\<close>, and \<^verbatim>\<open>None\<close> has no method \<^verbatim>\<open>joinpath\<close>.
\<close>

definition handle_file ::
  "env \<Rightarrow> plugin \<Rightarrow> fs \<Rightarrow> pathlike \<Rightarrow> string \<Rightarrow> ppath option \<Rightarrow> fs \<times> exn option" where
  "handle_file env self fs path mon_path target_path =
     (case path of
        PyStr s \<Rightarrow> (fs, Some (AttributeError ''exists''))
      | PyPath p \<Rightarrow>
          if \<not> exists fs p then (fs, None)
          else (case destination_guard self p of
                  Inl e \<Rightarrow> (fs, Some e)
                | Inr True \<Rightarrow> (fs, None)
                | Inr False \<Rightarrow>
                    (case relative_to p (Path_of mon_path) of
                       Inl e \<Rightarrow> (fs, Some e)
                     | Inr relpath \<Rightarrow>
                         (case target_path of
                            None \<Rightarrow> (fs, Some (AttributeError ''joinpath''))
                          | Some t \<Rightarrow>
                              (let target_file = joinpath t relpath;
                                   target_dir = parent target_file
                               in case mkdir_parents fs target_dir of
                                    (fs1, Some e) \<Rightarrow> (fs1, Some e)
                                  | (fs1, None) \<Rightarrow>
                                      (if exists fs1 target_file
                                       then (case unlink fs1 target_file of
                                               (fs2, Some e) \<Rightarrow> (fs2, Some e)
                                             | (fs2, None) \<Rightarrow>
                                                 link_or_copy env self fs2 p target_file)
                                       else link_or_copy env self fs1 p target_file))))))"

subsection \<open>Deletion\<close>

text \<open>The loop of \<^verbatim>\<open>__handle_delete\<close> over \<^verbatim>\<open>self._dirconf.values()\<close>.\<close>

fun delete_targets :: "fs \<Rightarrow> ppath \<Rightarrow> ppath option list \<Rightarrow> fs \<times> exn option" where
  "delete_targets fs relpath [] = (fs, None)"
| "delete_targets fs relpath (None # vs) = delete_targets fs relpath vs"
| "delete_targets fs relpath (Some target_dir # vs) =
     (let target_file = joinpath target_dir relpath
      in if exists fs target_file
         then (case unlink fs target_file of
                 (fs1, Some e) \<Rightarrow> (fs1, Some e)
               | (fs1, None) \<Rightarrow> delete_targets fs1 relpath vs)
         else delete_targets fs relpath vs)"

text \<open>\<^verbatim>\<open>__handle_delete(path, mon_path)\<close>.\<close>

definition handle_delete :: "plugin \<Rightarrow> fs \<Rightarrow> string \<Rightarrow> string \<Rightarrow> fs \<times> exn option" where
  "handle_delete self fs path mon_path =
     (case relative_to (Path_of path) (Path_of mon_path) of
        Inl e \<Rightarrow> (fs, Some e)
      | Inr relpath \<Rightarrow> delete_targets fs relpath (map snd (dirconf self)))"

subsection \<open>Events\<close>

text \<open>
  The three texts \<^verbatim>\<open>FileMonitorHandler\<close> passes to \<^verbatim>\<open>event_handler\<close>, for a created,
  a moved and a deleted path.
\<close>

datatype event_text = Created | Moved | Deleted

text \<open>
  \<^verbatim>\<open>event_handler(event, text, mon_path, event_path)\<close>, the body of its \<^verbatim>\<open>try\<close>: the
  three skip rules in the order of the source, then the dispatch.
\<close>

definition event_body ::
  "env \<Rightarrow> plugin \<Rightarrow> fs \<Rightarrow> event_text \<Rightarrow> string \<Rightarrow> string \<Rightarrow> fs \<times> exn option" where
  "event_body env self fs text mon_path event_path =
     (if \<not> exists fs (Path_of event_path) \<and> text \<noteq> Deleted then (fs, None)
      else (case (if 0 < size_mb self \<and> exists fs (Path_of event_path)
                  then (case getsize (dir_size env) fs (Path_of event_path) of
                          Inl e \<Rightarrow> Inl e
                        | Inr n \<Rightarrow> Inr (size_mb self * 1024 * 1024 < int n))
                  else Inr False) of
              Inl e \<Rightarrow> (fs, Some e)
            | Inr True \<Rightarrow> (fs, None)
            | Inr False \<Rightarrow>
                (case (if exclude_keywords self = [] then Some False
                       else re_findall env (exclude_keywords self) event_path) of
                   None \<Rightarrow> (fs, Some ReError)
                 | Some True \<Rightarrow> (fs, None)
                 | Some False \<Rightarrow>
                     (if text = Deleted then handle_delete self fs event_path mon_path
                      else handle_file env self fs (PyStr event_path) mon_path
                             (dict_get (dirconf self) mon_path)))))"

text \<open>
  \<^verbatim>\<open>event_handler\<close> catches every exception of its body and reports it; the result is
  the file system and the exceptions reported to the user.
\<close>

definition event_handler ::
  "env \<Rightarrow> plugin \<Rightarrow> fs \<Rightarrow> event_text \<Rightarrow> string \<Rightarrow> string \<Rightarrow> fs \<times> exn list" where
  "event_handler env self fs text mon_path event_path =
     (case event_body env self fs text mon_path event_path of
        (fs1, None) \<Rightarrow> (fs1, [])
      | (fs1, Some e) \<Rightarrow> (fs1, [e]))"

subsection \<open>Full resynchronization\<close>

text \<open>The inner loop of \<^verbatim>\<open>sync_all\<close>: no handler around the call, so an exception ends it.\<close>

fun sync_files ::
  "env \<Rightarrow> plugin \<Rightarrow> fs \<Rightarrow> ppath list \<Rightarrow> string \<Rightarrow> ppath option \<Rightarrow> fs \<times> exn option" where
  "sync_files env self fs [] mon_path target_path = (fs, None)"
| "sync_files env self fs (path # paths) mon_path target_path =
     (if is_file fs path
      then (case handle_file env self fs (PyPath path) mon_path target_path of
              (fs1, Some e) \<Rightarrow> (fs1, Some e)
            | (fs1, None) \<Rightarrow> sync_files env self fs1 paths mon_path target_path)
      else sync_files env self fs paths mon_path target_path)"

text \<open>The outer loop over \<^verbatim>\<open>self._dirconf.items()\<close>.\<close>

fun sync_dirs ::
  "env \<Rightarrow> plugin \<Rightarrow> fs \<Rightarrow> (string \<times> ppath option) list \<Rightarrow> fs \<times> exn option" where
  "sync_dirs env self fs [] = (fs, None)"
| "sync_dirs env self fs ((mon_path, target_path) # rest) =
     (case sync_files env self fs (rglob fs (Path_of mon_path)) mon_path target_path of
        (fs1, Some e) \<Rightarrow> (fs1, Some e)
      | (fs1, None) \<Rightarrow> sync_dirs env self fs1 rest)"

definition sync_all :: "env \<Rightarrow> plugin \<Rightarrow> fs \<Rightarrow> fs \<times> exn option" where
  "sync_all env self fs = sync_dirs env self fs (dirconf self)"

subsection \<open>Configuration\<close>

text \<open>
  One line of the directory text, split into source and destination. On Windows a line
  with more than one colon is cut at its second colon, and the fourth piece is read
  whether it is there or not.
\<close>

definition split_paths :: "env \<Rightarrow> string \<Rightarrow> exn + string list" where
  "split_paths env mon_path =
     (if is_windows env then
        (if 1 < count_list mon_path CHR '':'' then
           (let ps = split_on CHR '':'' mon_path
            in if length ps < 4 then Inl IndexError
               else Inr [ps ! 0 @ '':'' @ ps ! 1, ps ! 2 @ '':'' @ ps ! 3])
         else Inr [mon_path])
      else Inr (split_on CHR '':'' mon_path))"

text \<open>
  The body of the loop of \<^verbatim>\<open>init_plugin\<close> over the lines: the mapping is stored first;
  then, when monitoring is enabled, a destination inside its own source is reported and
  the line is left (\<^verbatim>\<open>continue\<close>), otherwise the watch of the source is scheduled.
\<close>

definition init_line :: "env \<Rightarrow> plugin \<Rightarrow> string \<Rightarrow> plugin \<times> exn option" where
  "init_line env self line =
     (if line = [] then (self, None)
      else (case split_paths env line of
              Inl e \<Rightarrow> (self, Some e)
            | Inr paths \<Rightarrow>
                (let mon_path = (if 1 < length paths then paths ! 0 else line);
                     target_path = (if 1 < length paths then Some (Path_of (paths ! 1)) else None);
                     self1 = self\<lparr>dirconf := AList.update mon_path target_path (dirconf self)\<rparr>
                 in if enabled self1 then
                      (if (case target_path of
                             None \<Rightarrow> False
                           | Some t \<Rightarrow> is_relative_to t (Path_of mon_path))
                       then (self1, None)
                       else (self1\<lparr>jobs := jobs self1 @ [StartMonitor mon_path]\<rparr>, None))
                    else (self1, None))))"

fun init_lines :: "env \<Rightarrow> plugin \<Rightarrow> string list \<Rightarrow> plugin \<times> exn option" where
  "init_lines env self [] = (self, None)"
| "init_lines env self (line # rest) =
     (case init_line env self line of
        (self1, Some e) \<Rightarrow> (self1, Some e)
      | (self1, None) \<Rightarrow> init_lines env self1 rest)"

text \<open>
  \<^verbatim>\<open>init_plugin(config)\<close>: the table is emptied, the options are read when a
  configuration is given, the running service is stopped (which removes every job), and
  the lines are processed when the plugin is enabled or asked to run once. An exception
  raised for a line leaves \<^verbatim>\<open>init_plugin\<close>. The options \<^verbatim>\<open>cron\<close> and the start of the
  scheduler have no part in what follows and are left out.
\<close>

definition read_config :: "plugin \<Rightarrow> config option \<Rightarrow> plugin" where
  "read_config self config =
     (case config of
        None \<Rightarrow> self\<lparr>dirconf := [], jobs := []\<rparr>
      | Some c \<Rightarrow>
          self\<lparr>enabled := cfg_enabled c, onlyonce := cfg_onlyonce c,
               copy_files := cfg_copy_files c, mode := cfg_mode c,
               monitor_dirs := cfg_monitor_dirs c,
               exclude_keywords := cfg_exclude_keywords c, size_mb := cfg_size c,
               dirconf := [], jobs := []\<rparr>)"

definition init_plugin :: "env \<Rightarrow> plugin \<Rightarrow> config option \<Rightarrow> plugin \<times> exn option" where
  "init_plugin env self0 config =
     (let self = read_config self0 config
      in if enabled self \<or> onlyonce self then
           (if split_on CHR 0x0A (monitor_dirs self) = [] then (self, None)
            else (case init_lines env self (split_on CHR 0x0A (monitor_dirs self)) of
                    (self1, Some e) \<Rightarrow> (self1, Some e)
                  | (self1, None) \<Rightarrow>
                      (if onlyonce self1
                       then (self1\<lparr>jobs := jobs self1 @ [SyncAllOnce], onlyonce := False\<rparr>,
                             None)
                       else (self1, None))))
         else (self, None))"

subsection \<open>Sequences of operations\<close>



section \<open>Example installation\<close>

text \<open>
  A small installation on which the theorems below are instantiated: a host that is not
  Windows, whose file names are ASCII, so that \<^verbatim>\<open>str.lower()\<close> maps the letters A to Z
  and nothing else; a pattern matcher that looks for the pattern as a substring without
  regard to case; and a source tree \<^verbatim>\<open>/src\<close> with a video, a text file and a temporary
  file.
\<close>

definition ascii_lower_char :: "char \<Rightarrow> char" where
  "ascii_lower_char c =
     (let n = (of_char c :: nat) in if 65 \<le> n \<and> n \<le> 90 then char_of (n + 32) else c)"

definition ascii_lower :: "string \<Rightarrow> string" where
  "ascii_lower s = map ascii_lower_char s"

definition example_env :: env where
  "example_env =
     \<lparr>is_windows = False,
      str_lower = ascii_lower,
      re_findall = (\<lambda>pat text. Some (is_substring (ascii_lower pat) (ascii_lower text))),
      ALL_VIDEO = [''.mkv'', ''.mp4''],
      ALL_SUBTITLE = [''.srt'', ''.ass''],
      dir_size = 4096\<rparr>"

definition example_plugin :: "(string \<times> ppath option) list \<Rightarrow> plugin" where
  "example_plugin dc =
     \<lparr>enabled = True, onlyonce = False, copy_files = False, mode = ''fast'',
      monitor_dirs = [], exclude_keywords = [], size_mb = 0, dirconf = dc, jobs = []\<rparr>"

definition example_fs :: fs where
  "example_fs =
     [(PPath ''/'' [''src''], Dir),
      (PPath ''/'' [''src'', ''a.mkv''], File ''video''),
      (PPath ''/'' [''src'', ''b.txt''], File ''text''),
      (PPath ''/'' [''src'', ''c.tmp''], File ''partial''),
      (PPath ''/'' [''dst''], Dir)]"

section \<open>Properties\<close>

subsection \<open>The destination guard\<close>

lemma in_destinations_eq:
  "in_destinations vs s = (if list_ex (\<lambda>v. v \<noteq> None) vs then Inl TypeError else Inr [])"
  by (induction vs s rule: in_destinations.induct) simp_all

lemma destination_guard_eq:
  "destination_guard self p =
     (if list_ex (\<lambda>v. v \<noteq> None) (map snd (dirconf self)) then Inl TypeError else Inr False)"
  by (simp add: destination_guard_def in_destinations_eq)

subsection \<open>Lines without a destination\<close>

lemma split_on_no_sep: "c \<notin> set s \<Longrightarrow> split_on c s = [s]"
  by (induction s) auto

lemma count_list_no_sep: "c \<notin> set s \<Longrightarrow> count_list s c = 0"
  by (induction s) auto

lemma split_paths_no_colon:
  "CHR '':'' \<notin> set line \<Longrightarrow> split_paths env line = Inr [line]"
  by (simp add: split_paths_def split_on_no_sep count_list_no_sep)

lemma init_line_no_colon:
  assumes "line \<noteq> []" and "CHR '':'' \<notin> set line"
  shows "dirconf (fst (init_line env self line)) = AList.update line None (dirconf self)"
  using assms by (simp add: init_line_def split_paths_no_colon Let_def)

text \<open>
  Claim C10. A configuration line without a colon stores the destination \<^verbatim>\<open>None\<close> for
  its source. For a mapping stored so, the single-file materializer called on an
  existing file below the source, with the destination read from the table, does not
  return silently: it raises and leaves the file system as it was. Called on a
  \<^verbatim>\<open>Path\<close> (as \<^verbatim>\<open>sync_all\<close> does) it raises the type error of the destination
  guard when any mapping of the table has a destination, and otherwise the attribute
  error of \<^verbatim>\<open>None.joinpath\<close>; called on a \<^verbatim>\<open>str\<close> (as \<^verbatim>\<open>event_handler\<close> does) it
  raises the attribute error of \<^verbatim>\<open>str.exists\<close>.
\<close>

theorem no_destination_raises:
  "(line \<noteq> [] \<and> CHR '':'' \<notin> set line \<longrightarrow>
      map_of (dirconf (fst (init_line env self0 line))) line = Some None)
   \<and> (map_of (dirconf self) mon_path = Some None \<and> exists fs p
        \<and> is_relative_to p (Path_of mon_path) \<longrightarrow>
      handle_file env self fs (PyPath p) mon_path (dict_get (dirconf self) mon_path)
        = (fs, Some (if list_ex (\<lambda>v. v \<noteq> None) (map snd (dirconf self))
                     then TypeError else AttributeError ''joinpath''))
      \<and> handle_file env self fs (PyStr s) mon_path (dict_get (dirconf self) mon_path)
        = (fs, Some (AttributeError ''exists'')))"
proof (intro conjI impI)
  assume "line \<noteq> [] \<and> CHR '':'' \<notin> set line"
  then show "map_of (dirconf (fst (init_line env self0 line))) line = Some None"
    by (simp add: init_line_no_colon update_conv')
next
  assume h: "map_of (dirconf self) mon_path = Some None \<and> exists fs p
        \<and> is_relative_to p (Path_of mon_path)"
  then have t: "dict_get (dirconf self) mon_path = None"
    by (simp add: dict_get_def)
  from h show "handle_file env self fs (PyPath p) mon_path (dict_get (dirconf self) mon_path)
        = (fs, Some (if list_ex (\<lambda>v. v \<noteq> None) (map snd (dirconf self))
                     then TypeError else AttributeError ''joinpath''))"
    by (simp add: t handle_file_def destination_guard_eq relative_to_def)
next
  show "handle_file env self fs (PyStr s) mon_path (dict_get (dirconf self) mon_path)
        = (fs, Some (AttributeError ''exists''))"
    by (simp add: handle_file_def)
qed

theorem no_destination_raises_witness:
  "map_of (dirconf (fst (init_line example_env (example_plugin []) ''/src''))) ''/src''
     = Some None
   \<and> handle_file example_env (example_plugin [(''/src'', None)]) example_fs
       (PyPath (PPath ''/'' [''src'', ''a.mkv''])) ''/src''
       (dict_get (dirconf (example_plugin [(''/src'', None)])) ''/src'')
     = (example_fs, Some (AttributeError ''joinpath''))
   \<and> handle_file example_env (example_plugin [(''/src'', None), (''/tv'', Some (PPath ''/'' [''dst'']))])
       example_fs (PyPath (PPath ''/'' [''src'', ''a.mkv''])) ''/src''
       (dict_get (dirconf (example_plugin [(''/src'', None), (''/tv'', Some (PPath ''/'' [''dst'']))])) ''/src'')
     = (example_fs, Some TypeError)"
proof -
  have l: "''/src'' \<noteq> [] \<and> CHR '':'' \<notin> set ''/src''"
    by simp
  have e: "exists example_fs (PPath ''/'' [''src'', ''a.mkv''])"
    by code_simp
  have r: "is_relative_to (PPath ''/'' [''src'', ''a.mkv'']) (Path_of ''/src'')"
    by code_simp
  have h1: "map_of (dirconf (example_plugin [(''/src'', None)])) ''/src'' = Some None
      \<and> exists example_fs (PPath ''/'' [''src'', ''a.mkv''])
      \<and> is_relative_to (PPath ''/'' [''src'', ''a.mkv'']) (Path_of ''/src'')"
    using e r by (simp add: example_plugin_def)
  have h2: "map_of (dirconf (example_plugin [(''/src'', None), (''/tv'', Some (PPath ''/'' [''dst'']))])) ''/src''
        = Some None
      \<and> exists example_fs (PPath ''/'' [''src'', ''a.mkv''])
      \<and> is_relative_to (PPath ''/'' [''src'', ''a.mkv'']) (Path_of ''/src'')"
    using e r by (simp add: example_plugin_def)
  have n1: "\<not> list_ex (\<lambda>v. v \<noteq> None) (map snd (dirconf (example_plugin [(''/src'', None)])))"
    by (simp add: example_plugin_def)
  have n2: "list_ex (\<lambda>v. v \<noteq> None)
      (map snd (dirconf (example_plugin [(''/src'', None), (''/tv'', Some (PPath ''/'' [''dst'']))])))"
    by (simp add: example_plugin_def)
  show ?thesis
    using no_destination_raises [of "''/src''" example_env "example_plugin []"
        "example_plugin [(''/src'', None)]" "''/src''" example_fs "PPath ''/'' [''src'', ''a.mkv'']"]
      no_destination_raises [of "''/src''" example_env "example_plugin []"
        "example_plugin [(''/src'', None), (''/tv'', Some (PPath ''/'' [''dst'']))]" "''/src''"
        example_fs "PPath ''/'' [''src'', ''a.mkv'']"]
      l h1 h2 n1 n2
    by simp
qed

subsection \<open>What the entry points leave of the file system\<close>


lemma handle_file_configured:
  "list_ex (\<lambda>v. v \<noteq> None) (map snd (dirconf self)) \<Longrightarrow> exists fs p \<Longrightarrow>
     handle_file env self fs (PyPath p) mon_path target_path = (fs, Some TypeError)"
  by (simp add: handle_file_def destination_guard_eq)









subsection \<open>The size threshold\<close>

text \<open>
  Claim C2. The claim fails on the code at its last part. With a threshold of one
  megabyte and the mapping of \<^verbatim>\<open>/src\<close> to \<^verbatim>\<open>/dst\<close>, the file \<^verbatim>\<open>/src/b.txt\<close> of four
  bytes passes the size rule, and the created event for it reaches \<^verbatim>\<open>__handle_file\<close>
  with the event path as a \<^verbatim>\<open>str\<close>: the call \<^verbatim>\<open>path.exists()\<close> raises the attribute
  error, \<^verbatim>\<open>event_handler\<close> reports it, and nothing is made at \<^verbatim>\<open>/dst/b.txt\<close>.
\<close>

theorem renotified_small_file_not_materialized:
  "event_handler example_env
       ((example_plugin [(''/src'', Some (PPath ''/'' [''dst'']))])\<lparr>size_mb := 1\<rparr>)
       example_fs Created ''/src'' ''/src/b.txt''
     = (example_fs, [AttributeError ''exists''])
   \<and> getsize 4096 example_fs (Path_of ''/src/b.txt'') = Inr 4
   \<and> fs_node example_fs (PPath ''/'' [''dst'', ''b.txt'']) = None"
  by code_simp

subsection \<open>Exceptions during a full resynchronization\<close>

text \<open>
  Claim C3. The claim fails on the code: \<^verbatim>\<open>sync_all\<close> has no handler around
  \<^verbatim>\<open>__handle_file\<close>. With the source \<^verbatim>\<open>/src\<close> mapped to no destination, the walk
  finds three files; the attribute error raised for the first of them leaves
  \<^verbatim>\<open>sync_all\<close>, which ends the walk and the resynchronization.
\<close>

theorem sync_all_exception_escapes:
  "sync_all example_env (example_plugin [(''/src'', None)]) example_fs
     = (example_fs, Some (AttributeError ''joinpath''))
   \<and> rglob example_fs (Path_of ''/src'')
     = [PPath ''/'' [''src'', ''a.mkv''], PPath ''/'' [''src'', ''b.txt''],
        PPath ''/'' [''src'', ''c.tmp'']]"
  by code_simp

subsection \<open>Deletion of a link whose source is gone\<close>

text \<open>
  Claim C4. The claim fails on the code where the target is a symbolic link whose
  referent was deleted: \<^verbatim>\<open>target_file.exists()\<close> follows the link, finds nothing and
  the link is kept. Here \<^verbatim>\<open>/dst/a.mkv\<close> links to the deleted \<^verbatim>\<open>/src/a.mkv\<close>, and
  \<^verbatim>\<open>__handle_delete\<close> returns the file system as it was.
\<close>

theorem dangling_link_not_removed:
  "handle_delete (example_plugin [(''/src'', Some (PPath ''/'' [''dst'']))])
       [(PPath ''/'' [''src''], Dir), (PPath ''/'' [''dst''], Dir),
        (PPath ''/'' [''dst'', ''a.mkv''], Link (PPath ''/'' [''src'', ''a.mkv'']))]
       ''/src/a.mkv'' ''/src''
     = ([(PPath ''/'' [''src''], Dir), (PPath ''/'' [''dst''], Dir),
         (PPath ''/'' [''dst'', ''a.mkv''], Link (PPath ''/'' [''src'', ''a.mkv'']))], None)"
  by code_simp

subsection \<open>The destination guard on a configured destination\<close>

text \<open>
  Claim C5. The claim fails on the code: the guard does not return normally when a
  destination is configured. With \<^verbatim>\<open>/src\<close> mapped to \<^verbatim>\<open>/dst\<close>, the guard evaluated
  for the existing file \<^verbatim>\<open>/src/a.mkv\<close> raises the type error of
  \<^verbatim>\<open>Path in str\<close>, and so does \<^verbatim>\<open>__handle_file\<close>. By lemma
  \<open>destination_guard_eq\<close> the guard never evaluates to true.
\<close>

theorem destination_guard_type_error:
  "destination_guard (example_plugin [(''/src'', Some (PPath ''/'' [''dst'']))])
       (PPath ''/'' [''src'', ''a.mkv''])
     = Inl TypeError
   \<and> handle_file example_env (example_plugin [(''/src'', Some (PPath ''/'' [''dst'']))])
       example_fs (PyPath (PPath ''/'' [''src'', ''a.mkv''])) ''/src''
       (Some (PPath ''/'' [''dst'']))
     = (example_fs, Some TypeError)"
  by code_simp

subsection \<open>Materializing twice\<close>

text \<open>
  Claim C9. The claim fails on the code: under a mapping with a configured destination
  the first run and the second run of \<^verbatim>\<open>__handle_file\<close> on the existing file
  \<^verbatim>\<open>/src/a.mkv\<close> both raise the type error of the destination guard, and no entry is
  made at \<^verbatim>\<open>/dst/a.mkv\<close>.
\<close>

theorem materialize_twice_type_error:
  "handle_file example_env (example_plugin [(''/src'', Some (PPath ''/'' [''dst'']))])
       example_fs (PyPath (PPath ''/'' [''src'', ''a.mkv''])) ''/src''
       (Some (PPath ''/'' [''dst'']))
     = (example_fs, Some TypeError)
   \<and> handle_file example_env (example_plugin [(''/src'', Some (PPath ''/'' [''dst'']))])
       (fst (handle_file example_env (example_plugin [(''/src'', Some (PPath ''/'' [''dst'']))])
          example_fs (PyPath (PPath ''/'' [''src'', ''a.mkv''])) ''/src''
          (Some (PPath ''/'' [''dst'']))))
       (PyPath (PPath ''/'' [''src'', ''a.mkv''])) ''/src'' (Some (PPath ''/'' [''dst'']))
     = (example_fs, Some TypeError)
   \<and> fs_node example_fs (PPath ''/'' [''dst'', ''a.mkv'']) = None"
  by code_simp

subsection \<open>Link or copy\<close>

lemma fs_node_update:
  "fs_node (AList.update q v fs) x =
     (if pcomps x = [] then Some Dir else if x = q then Some v else fs_node fs x)"
  by (simp add: fs_node_def update_conv')

lemma os_mkdir_nodes:
  "os_mkdir fs d = (fs1, r) \<Longrightarrow> fs_node fs1 x = fs_node fs x \<or> fs_node fs1 x = Some Dir"
  by (auto simp: os_mkdir_def fs_node_update split: option.splits if_splits)

lemma mkdir_leaf_nodes:
  assumes "mkdir_leaf fs d = (fs1, r)"
  shows "fs_node fs1 x = fs_node fs x \<or> fs_node fs1 x = Some Dir"
proof -
  obtain fs0 r0 where o: "os_mkdir fs d = (fs0, r0)" by (cases "os_mkdir fs d")
  with assms have "fs1 = fs0"
    by (auto simp: mkdir_leaf_def split: option.splits exn.splits if_splits)
  with o show ?thesis by (simp add: os_mkdir_nodes)
qed

lemma mkdir_parents_nodes:
  "mkdir_parents fs d = (fs1, r) \<Longrightarrow> fs_node fs1 x = fs_node fs x \<or> fs_node fs1 x = Some Dir"
proof (induction fs d arbitrary: fs1 r rule: mkdir_parents.induct)
  case (1 fs d)
  obtain fs0 r0 where o: "os_mkdir fs d = (fs0, r0)" by (cases "os_mkdir fs d")
  show ?case
  proof (cases "r0 = Some FileNotFoundError \<and> parent d \<noteq> d")
    case False
    with "1.prems" o have "fs1 = fs0"
      by (subst (asm) mkdir_parents.simps)
        (auto split: option.splits exn.splits if_splits)
    with o show ?thesis by (simp add: os_mkdir_nodes)
  next
    case True
    obtain fs2 r2 where p: "mkdir_parents fs (parent d) = (fs2, r2)"
      by (cases "mkdir_parents fs (parent d)")
    from True o p have ih: "fs_node fs2 x = fs_node fs x \<or> fs_node fs2 x = Some Dir"
      using "1.IH" [of fs0 "Some FileNotFoundError" "FileNotFoundError" fs2 r2] by simp
    show ?thesis
    proof (cases r2)
      case (Some e)
      with "1.prems" o True p have "fs1 = fs2"
        by (subst (asm) mkdir_parents.simps) simp
      with ih show ?thesis by simp
    next
      case None
      with "1.prems" o True p have "mkdir_leaf fs2 d = (fs1, r)"
        by (subst (asm) mkdir_parents.simps) simp
      from mkdir_leaf_nodes [OF this, of x] ih show ?thesis by auto
    qed
  qed
qed


lemma fs_node_delete:
  "fs_node (AList.delete q fs) x =
     (if pcomps x = [] then Some Dir else if x = q then None else fs_node fs x)"
  by (simp add: fs_node_def delete_conv')

lemma fs_node_None_comps: "fs_node fs q = None \<Longrightarrow> pcomps q \<noteq> []"
  by (auto simp: fs_node_def)

lemma fs_node_update_other:
  "x \<noteq> q \<Longrightarrow> fs_node (AList.update q v fs) x = fs_node fs x"
  by (simp add: fs_node_def update_conv')

lemma follow_update_file:
  "fs_node fs q = None \<Longrightarrow> follow n (AList.update q (File c) fs) x = follow n fs x"
proof (induction n arbitrary: x)
  case 0
  then show ?case by simp
next
  case (Suc n)
  show ?case
  proof (cases "x = q")
    case True
    from Suc.prems have "pcomps q \<noteq> []" by (rule fs_node_None_comps)
    with True Suc.prems show ?thesis
      by (simp add: fs_node_update)
  next
    case False
    then have "fs_node (AList.update q (File c) fs) x = fs_node fs x"
      by (rule fs_node_update_other)
    then show ?thesis
      using Suc by (simp split: option.splits node.splits)
  qed
qed

lemma follow_link:
  "follow 41 fs x = Some q \<Longrightarrow> q \<noteq> x \<Longrightarrow> \<exists>t. fs_node fs x = Some (Link t)"
  by (auto simp: eval_nat_numeral split: option.splits node.splits)

lemma follow_absent: "fs_node fs p = None \<Longrightarrow> follow (Suc n) fs p = Some p"
  by simp

lemma os_symlink_node:
  assumes "os_symlink fs src dst = (fs', None)"
  shows "fs_node fs' dst = Some (Link src)"
proof -
  from assms have n: "fs_node fs dst = None"
    by (auto simp: os_symlink_def split: option.splits)
  then have c: "pcomps dst \<noteq> []" by (rule fs_node_None_comps)
  from assms n have "fs' = AList.update dst (Link src) fs"
    by (auto simp: os_symlink_def split: option.splits)
  with c show ?thesis by (simp add: fs_node_update)
qed

lemma write_file_absent:
  assumes "write_file fs p c = (fs', None)" and "stat fs p = None"
  shows "\<exists>q. follow 41 fs p = Some q \<and> fs_node fs q = None \<and> fs' = AList.update q (File c) fs"
proof (cases "follow 41 fs p")
  case None
  with assms(1) show ?thesis by (simp add: write_file_def)
next
  case (Some q)
  with assms(2) have n: "fs_node fs q = None" by (simp add: stat_def)
  with assms(1) Some have "fs' = AList.update q (File c) fs"
    by (simp add: write_file_def split: option.splits)
  with Some n show ?thesis by simp
qed

text \<open>
  A successful copy onto a path that does not resolve: the bytes are written to a new
  regular file, which is another file than the one the source resolves to, and no other
  entry changes.
\<close>

lemma shutil_copy_bytes:
  assumes "shutil_copy fs src dst = (fs', None)" and "stat fs dst = None"
  shows "\<exists>c q. follow 41 fs dst = Some q \<and> fs_node fs q = None
           \<and> follow 41 fs' dst = Some q \<and> fs_node fs' q = Some (File c)
           \<and> stat fs' src = Some (File c) \<and> follow 41 fs' src \<noteq> Some q
           \<and> (\<forall>x. x \<noteq> q \<longrightarrow> fs_node fs' x = fs_node fs x)"
proof -
  from assms(2) have nd: "\<not> is_dir fs dst" by (simp add: is_dir_def)
  from assms(1) nd have s: "\<not> samefile fs src dst"
    by (auto simp: shutil_copy_def)
  from assms(1) nd s obtain qs where qs: "follow 41 fs src = Some qs"
    by (cases "follow 41 fs src") (simp_all add: shutil_copy_def)
  from assms(1) nd s qs obtain c where c: "fs_node fs qs = Some (File c)"
    and w: "write_file fs dst c = (fs', None)"
    by (simp add: shutil_copy_def split: option.splits node.splits)
  from write_file_absent [OF w assms(2)] obtain q where
    q1: "follow 41 fs dst = Some q" and q2: "fs_node fs q = None"
    and q3: "fs' = AList.update q (File c) fs"
    by blast
  from q2 have qc: "pcomps q \<noteq> []" by (rule fs_node_None_comps)
  from c q2 have ne: "qs \<noteq> q" by auto
  have f: "follow 41 fs' x = follow 41 fs x" for x
    unfolding q3 using q2 by (rule follow_update_file)
  have n: "fs_node fs' q = Some (File c)"
    unfolding q3 using qc by (simp add: fs_node_update)
  have o: "\<forall>x. x \<noteq> q \<longrightarrow> fs_node fs' x = fs_node fs x"
    unfolding q3 by (simp add: fs_node_update_other)
  from o ne have "fs_node fs' qs = fs_node fs qs" by simp
  then have t: "stat fs' src = Some (File c)"
    by (simp add: stat_def f qs c)
  have d: "follow 41 fs' src \<noteq> Some q"
    using ne by (simp add: f qs)
  from q1 q2 n t d o show ?thesis
    by (simp add: f)
qed

lemma unlink_absent:
  assumes "unlink fs p = (fs', None)"
  shows "fs_node fs' p = None"
proof -
  from assms have c: "pcomps p \<noteq> []"
    by (auto simp: unlink_def fs_node_def split: option.splits node.splits)
  from assms have "fs' = AList.delete p fs"
    by (auto simp: unlink_def split: option.splits node.splits)
  with c show ?thesis by (simp add: fs_node_delete)
qed

lemma absent_stat:
  assumes "fs_node fs p = None"
  shows "follow 41 fs p = Some p" and "stat fs p = None"
proof -
  have "follow (Suc 40) fs p = Some p" using assms by (rule follow_absent)
  then show "follow 41 fs p = Some p" by (simp add: eval_nat_numeral)
  with assms show "stat fs p = None" by (simp add: stat_def)
qed


lemma link_or_copy_result:
  assumes "link_or_copy env self fs p tf = (fs', None)" and "stat fs tf = None"
  shows "if copy_files self
            \<and> str_lower env (suffix_of p) \<notin> set (ALL_VIDEO env @ ALL_SUBTITLE env)
         then \<exists>c q. follow 41 fs tf = Some q
                \<and> follow 41 fs' tf = Some q \<and> fs_node fs' q = Some (File c)
                \<and> stat fs' p = Some (File c) \<and> follow 41 fs' p \<noteq> Some q
                \<and> (\<forall>x. x \<noteq> q \<longrightarrow> fs_node fs' x = fs_node fs x)
         else fs_node fs' tf = Some (Link p)"
proof (cases "copy_files self
    \<and> str_lower env (suffix_of p) \<notin> set (ALL_VIDEO env @ ALL_SUBTITLE env)")
  case True
  with assms(1) have "shutil_copy fs p tf = (fs', None)"
    by (simp add: link_or_copy_def)
  from shutil_copy_bytes [OF this assms(2)]
  have "\<exists>c q. follow 41 fs tf = Some q
      \<and> follow 41 fs' tf = Some q \<and> fs_node fs' q = Some (File c)
      \<and> stat fs' p = Some (File c) \<and> follow 41 fs' p \<noteq> Some q
      \<and> (\<forall>x. x \<noteq> q \<longrightarrow> fs_node fs' x = fs_node fs x)"
    by blast
  then show ?thesis by (simp only: if_P [OF True])
next
  case False
  then have "link_or_copy env self fs p tf = os_symlink fs p tf"
    by (cases "copy_files self") (simp_all add: link_or_copy_def)
  with assms(1) have "os_symlink fs p tf = (fs', None)" by simp
  then have "fs_node fs' tf = Some (Link p)" by (rule os_symlink_node)
  then show ?thesis by (simp only: if_not_P [OF False])
qed

text \<open>
  The loop of \<^verbatim>\<open>sync_all\<close> takes each destination from its own iteration over the
  table, and the guard of \<^verbatim>\<open>__handle_file\<close> reads the table again at every call.
  \<^verbatim>\<open>init_plugin\<close> empties the table in its first statement, before it stops the
  running jobs. When it does so while a resynchronization is under way, the loop goes
  on with the old mapping and an empty table, and every file is materialized.
\<close>

lemma resync_with_emptied_table:
  "sync_dirs example_env (example_plugin []) example_fs [(''/src'', Some (PPath ''/'' [''dst'']))]
     = (example_fs @
          [(PPath ''/'' [''dst'', ''a.mkv''], Link (PPath ''/'' [''src'', ''a.mkv''])),
           (PPath ''/'' [''dst'', ''b.txt''], Link (PPath ''/'' [''src'', ''b.txt''])),
           (PPath ''/'' [''dst'', ''c.tmp''], Link (PPath ''/'' [''src'', ''c.tmp'']))],
        None)"
  by code_simp

text \<open>
  Claim C8. Let \<^verbatim>\<open>__handle_file\<close> be called on an existing source file with a
  destination directory and return normally. Since the destination guard never
  evaluates to true, the file was materialized, at the target path that joins the
  destination with the file's path relative to the source. When copy mode is off, or when
  the extension of the file, put in lower case by \<^verbatim>\<open>str.lower()\<close>, is in the video or
  subtitle extensions, the entry at the target path is a symbolic link to the source
  file. Otherwise no link is made and the bytes are copied: the target path resolves to
  a regular file that holds the bytes of the source file and is not the file the source
  resolves to. This regular file is the target path itself, unless the target path held
  a dangling symbolic link before the call, which \<^verbatim>\<open>exists()\<close> does not see: then
  that link is left as it was and the bytes are written where it points.

  The call returns normally only while no mapping of the table has a destination (lemma
  \<open>handle_file_configured\<close>), the state of lemma \<open>resync_with_emptied_table\<close>.
\<close>

theorem link_or_copy_decision:
  assumes "handle_file env self fs (PyPath p) mon_path (Some t) = (fs', None)"
    and "exists fs p"
    and "relative_to p (Path_of mon_path) = Inr relpath"
  shows "if copy_files self
            \<and> str_lower env (suffix_of p) \<notin> set (ALL_VIDEO env @ ALL_SUBTITLE env)
         then \<exists>c q. follow 41 fs' (joinpath t relpath) = Some q
                \<and> fs_node fs' q = Some (File c)
                \<and> stat fs' p = Some (File c) \<and> follow 41 fs' p \<noteq> Some q
                \<and> (q = joinpath t relpath
                    \<or> fs_node fs' (joinpath t relpath) = fs_node fs (joinpath t relpath))
         else fs_node fs' (joinpath t relpath) = Some (Link p)"
proof -
  let ?tf = "joinpath t relpath"
  let ?copy = "copy_files self
    \<and> str_lower env (suffix_of p) \<notin> set (ALL_VIDEO env @ ALL_SUBTITLE env)"
  from assms(1,2) have g: "destination_guard self p = Inr False"
    by (simp add: handle_file_def destination_guard_eq split: if_splits)
  obtain fs1 r1 where m: "mkdir_parents fs (parent ?tf) = (fs1, r1)"
    by (cases "mkdir_parents fs (parent ?tf)")
  from assms g m have r1: "r1 = None"
    by (cases r1) (simp_all add: handle_file_def Let_def)
  have "\<exists>fs2. stat fs2 ?tf = None \<and> link_or_copy env self fs2 p ?tf = (fs', None)
      \<and> (fs_node fs2 ?tf = None \<or> fs2 = fs1)"
  proof (cases "exists fs1 ?tf")
    case True
    obtain fs2 r2 where u: "unlink fs1 ?tf = (fs2, r2)"
      by (cases "unlink fs1 ?tf")
    from assms g m r1 True u have r2: "r2 = None"
      by (cases r2) (simp_all add: handle_file_def Let_def)
    from assms g m r1 True u r2 have l: "link_or_copy env self fs2 p ?tf = (fs', None)"
      by (simp add: handle_file_def Let_def)
    from u r2 have n: "fs_node fs2 ?tf = None" by (simp add: unlink_absent)
    then have "stat fs2 ?tf = None" by (rule absent_stat)
    with l n show ?thesis by blast
  next
    case False
    with assms g m r1 have l: "link_or_copy env self fs1 p ?tf = (fs', None)"
      by (simp add: handle_file_def Let_def)
    from False have "stat fs1 ?tf = None" by (simp add: exists_def)
    with l show ?thesis by blast
  qed
  then obtain fs2 where s: "stat fs2 ?tf = None"
    and l: "link_or_copy env self fs2 p ?tf = (fs', None)"
    and a: "fs_node fs2 ?tf = None \<or> fs2 = fs1"
    by blast
  note res = link_or_copy_result [OF l s]
  show ?thesis
  proof (cases ?copy)
    case False
    from res have "fs_node fs' ?tf = Some (Link p)"
      by (simp only: if_not_P [OF False])
    then show ?thesis by (simp only: if_not_P [OF False])
  next
    case True
    from res obtain c q where q0: "follow 41 fs2 ?tf = Some q"
      and q1: "follow 41 fs' ?tf = Some q" and q2: "fs_node fs' q = Some (File c)"
      and q3: "stat fs' p = Some (File c)" and q4: "follow 41 fs' p \<noteq> Some q"
      and q5: "\<forall>x. x \<noteq> q \<longrightarrow> fs_node fs' x = fs_node fs2 x"
      by (simp only: if_P [OF True]) blast
    have "q = ?tf \<or> fs_node fs' ?tf = fs_node fs ?tf"
    proof (cases "q = ?tf")
      case True
      then show ?thesis by simp
    next
      case False
      with q0 obtain t' where k: "fs_node fs2 ?tf = Some (Link t')"
        using follow_link by blast
      with a have "fs2 = fs1" by auto
      with k have "fs_node fs1 ?tf = Some (Link t')" by simp
      with mkdir_parents_nodes [OF m, of ?tf] have "fs_node fs1 ?tf = fs_node fs ?tf"
        by auto
      with q5 False \<open>fs2 = fs1\<close> show ?thesis by auto
    qed
    with q1 q2 q3 q4 have "\<exists>c q. follow 41 fs' ?tf = Some q
        \<and> fs_node fs' q = Some (File c)
        \<and> stat fs' p = Some (File c) \<and> follow 41 fs' p \<noteq> Some q
        \<and> (q = ?tf \<or> fs_node fs' ?tf = fs_node fs ?tf)"
      by blast
    then show ?thesis by (simp only: if_P [OF True])
  qed
qed


theorem link_or_copy_decision_witness:
  "fs_node
     (fst (handle_file example_env (example_plugin []) example_fs
        (PyPath (PPath ''/'' [''src'', ''a.mkv''])) ''/src'' (Some (PPath ''/'' [''dst'']))))
     (PPath ''/'' [''dst'', ''a.mkv''])
     = Some (Link (PPath ''/'' [''src'', ''a.mkv'']))
   \<and> fs_node
     (fst (handle_file example_env ((example_plugin [])\<lparr>copy_files := True\<rparr>)
        (example_fs @ [(PPath ''/'' [''src'', ''S01.MKV''], File ''film'')])
        (PyPath (PPath ''/'' [''src'', ''S01.MKV''])) ''/src'' (Some (PPath ''/'' [''dst'']))))
     (PPath ''/'' [''dst'', ''S01.MKV''])
     = Some (Link (PPath ''/'' [''src'', ''S01.MKV'']))
   \<and> fs_node
     (fst (handle_file example_env ((example_plugin [])\<lparr>copy_files := True\<rparr>) example_fs
        (PyPath (PPath ''/'' [''src'', ''b.txt''])) ''/src'' (Some (PPath ''/'' [''dst'']))))
     (PPath ''/'' [''dst'', ''b.txt''])
     = Some (File ''text'')"
proof -
  let ?a = "PPath ''/'' [''src'', ''a.mkv'']"
  let ?u = "PPath ''/'' [''src'', ''S01.MKV'']"
  let ?b = "PPath ''/'' [''src'', ''b.txt'']"
  let ?d = "PPath ''/'' [''dst'']"
  let ?ta = "PPath ''/'' [''dst'', ''a.mkv'']"
  let ?tu = "PPath ''/'' [''dst'', ''S01.MKV'']"
  let ?tb = "PPath ''/'' [''dst'', ''b.txt'']"
  let ?on = "(example_plugin [])\<lparr>copy_files := True\<rparr>"
  let ?fsu = "example_fs @ [(?u, File ''film'')]"
  let ?fa = "example_fs @ [(?ta, Link ?a)]"
  let ?fu = "?fsu @ [(?tu, Link ?u)]"
  let ?fb = "example_fs @ [(?tb, File ''text'')]"
  have ea: "exists example_fs ?a" by code_simp
  have eu: "exists ?fsu ?u" by code_simp
  have eb: "exists example_fs ?b" by code_simp
  have ra: "relative_to ?a (Path_of ''/src'') = Inr (PPath [] [''a.mkv''])" by code_simp
  have ru: "relative_to ?u (Path_of ''/src'') = Inr (PPath [] [''S01.MKV''])" by code_simp
  have rb: "relative_to ?b (Path_of ''/src'') = Inr (PPath [] [''b.txt''])" by code_simp
  have ja: "joinpath ?d (PPath [] [''a.mkv'']) = ?ta" by code_simp
  have ju: "joinpath ?d (PPath [] [''S01.MKV'']) = ?tu" by code_simp
  have jb: "joinpath ?d (PPath [] [''b.txt'']) = ?tb" by code_simp
  have h1: "handle_file example_env (example_plugin []) example_fs (PyPath ?a) ''/src'' (Some ?d)
      = (?fa, None)" by code_simp
  have h2: "handle_file example_env ?on ?fsu (PyPath ?u) ''/src'' (Some ?d)
      = (?fu, None)" by code_simp
  have h3: "handle_file example_env ?on example_fs (PyPath ?b) ''/src'' (Some ?d)
      = (?fb, None)" by code_simp
  have c1: "\<not> (copy_files (example_plugin []) \<and>
      str_lower example_env (suffix_of ?a)
        \<notin> set (ALL_VIDEO example_env @ ALL_SUBTITLE example_env))"
    by (simp add: example_plugin_def)
  have c2: "\<not> (copy_files ?on \<and>
      str_lower example_env (suffix_of ?u)
        \<notin> set (ALL_VIDEO example_env @ ALL_SUBTITLE example_env))"
    by code_simp
  have c3: "copy_files ?on \<and>
      str_lower example_env (suffix_of ?b)
        \<notin> set (ALL_VIDEO example_env @ ALL_SUBTITLE example_env)"
    by code_simp
  have t1: "fs_node ?fa ?ta = Some (Link ?a)"
    using link_or_copy_decision [OF h1 ea ra] by (simp only: if_not_P [OF c1] ja)
  have t2: "fs_node ?fu ?tu = Some (Link ?u)"
    using link_or_copy_decision [OF h2 eu ru] by (simp only: if_not_P [OF c2] ju)
  have sb: "stat ?fb ?b = Some (File ''text'')" by code_simp
  have fb: "follow 41 ?fb ?tb = Some ?tb" by code_simp
  have "\<exists>c q. follow 41 ?fb ?tb = Some q \<and> fs_node ?fb q = Some (File c)
      \<and> stat ?fb ?b = Some (File c) \<and> follow 41 ?fb ?b \<noteq> Some q
      \<and> (q = ?tb \<or> fs_node ?fb ?tb = fs_node example_fs ?tb)"
    using link_or_copy_decision [OF h3 eb rb] by (simp only: if_P [OF c3] jb)
  then obtain c q where "follow 41 ?fb ?tb = Some q" and "fs_node ?fb q = Some (File c)"
    and "stat ?fb ?b = Some (File c)"
    by blast
  with sb fb have t3: "fs_node ?fb ?tb = Some (File ''text'')"
    by simp
  show ?thesis
    using t1 t2 t3 by (simp only: h1 h2 h3 fst_conv simp_thms)
qed

subsection \<open>Destinations inside their own source\<close>

text \<open>
  A line that schedules a watch of the source \<open>s\<close>: it is not empty, it splits, and it
  either names \<open>s\<close> alone or names \<open>s\<close> with a destination that is neither \<open>s\<close>
  nor below it.
\<close>

definition watched_line :: "env \<Rightarrow> string \<Rightarrow> string \<Rightarrow> bool" where
  "watched_line env line s =
     (line \<noteq> [] \<and>
      (case split_paths env line of
         Inl e \<Rightarrow> False
       | Inr paths \<Rightarrow>
           if 1 < length paths
           then s = paths ! 0 \<and> \<not> is_relative_to (Path_of (paths ! 1)) (Path_of (paths ! 0))
           else s = line))"

definition example_config :: "string \<Rightarrow> config" where
  "example_config dirs =
     \<lparr>cfg_enabled = True, cfg_onlyonce = False, cfg_copy_files = False, cfg_mode = ''fast'',
      cfg_monitor_dirs = dirs, cfg_exclude_keywords = [], cfg_size = 0\<rparr>"

lemma split_paths_empty: "split_paths env [] = Inr [[]]"
  by (simp add: split_paths_def)

lemma init_line_nested:
  assumes "split_paths env line = Inr paths" and "1 < length paths"
    and "is_relative_to (Path_of (paths ! 1)) (Path_of (paths ! 0))"
  shows "jobs (fst (init_line env self line)) = jobs self"
    and "map_of (dirconf (fst (init_line env self line))) (paths ! 0)
           = Some (Some (Path_of (paths ! 1)))"
proof -
  from assms(1,2) have "line \<noteq> []"
    by (auto simp: split_paths_empty)
  with assms show "jobs (fst (init_line env self line)) = jobs self"
    and "map_of (dirconf (fst (init_line env self line))) (paths ! 0)
           = Some (Some (Path_of (paths ! 1)))"
    by (simp_all add: init_line_def Let_def update_conv')
qed

lemma init_line_jobs:
  assumes "StartMonitor s \<in> set (jobs (fst (init_line env self line)))"
  shows "StartMonitor s \<in> set (jobs self) \<or> watched_line env line s"
proof (cases "line = []")
  case True
  with assms show ?thesis by (simp add: init_line_def)
next
  case False
  show ?thesis
  proof (cases "split_paths env line")
    case (Inl e)
    with assms False show ?thesis by (simp add: init_line_def)
  next
    case (Inr paths)
    with assms False show ?thesis
      by (auto simp: init_line_def watched_line_def Let_def split: if_splits option.splits)
  qed
qed

lemma init_lines_jobs:
  "StartMonitor s \<in> set (jobs (fst (init_lines env self ls))) \<Longrightarrow>
     StartMonitor s \<in> set (jobs self) \<or> (\<exists>line \<in> set ls. watched_line env line s)"
proof (induction ls arbitrary: self)
  case Nil
  then show ?case by simp
next
  case (Cons line ls)
  obtain self1 r where i: "init_line env self line = (self1, r)"
    by (cases "init_line env self line")
  show ?case
  proof (cases r)
    case None
    with Cons.prems i have "StartMonitor s \<in> set (jobs (fst (init_lines env self1 ls)))"
      by simp
    then have "StartMonitor s \<in> set (jobs self1) \<or> (\<exists>line \<in> set ls. watched_line env line s)"
      by (rule Cons.IH)
    moreover have "StartMonitor s \<in> set (jobs self1) \<Longrightarrow>
        StartMonitor s \<in> set (jobs self) \<or> watched_line env line s"
      using init_line_jobs [of s env self line] i by simp
    ultimately show ?thesis by auto
  next
    case (Some e)
    with Cons.prems i have "StartMonitor s \<in> set (jobs self1)" by simp
    then have "StartMonitor s \<in> set (jobs self) \<or> watched_line env line s"
      using init_line_jobs [of s env self line] i by simp
    then show ?thesis by auto
  qed
qed

lemma init_plugin_jobs:
  assumes "StartMonitor s \<in> set (jobs (fst (init_plugin env self0 config)))"
  shows "\<exists>line \<in> set (split_on CHR 0x0A (monitor_dirs (read_config self0 config))).
           watched_line env line s"
proof -
  let ?self = "read_config self0 config"
  let ?ls = "split_on CHR 0x0A (monitor_dirs ?self)"
  have j: "jobs ?self = []"
    by (simp add: read_config_def split: option.splits)
  obtain self1 r where i: "init_lines env ?self ?ls = (self1, r)"
    by (cases "init_lines env ?self ?ls")
  from assms i j have "StartMonitor s \<in> set (jobs self1)"
    by (auto simp: init_plugin_def Let_def split: if_splits option.splits)
  then have "StartMonitor s \<in> set (jobs (fst (init_lines env ?self ?ls)))"
    using i by simp
  then have "StartMonitor s \<in> set (jobs ?self) \<or> (\<exists>line \<in> set ?ls. watched_line env line s)"
    by (rule init_lines_jobs)
  with j show ?thesis by simp
qed

text \<open>
  Claim C6, as stated, fails on the code: the mapping is stored before the destination
  is checked. With monitoring enabled and the line \<^verbatim>\<open>/src:/src/dst\<close>, the table holds
  \<^verbatim>\<open>/src\<close> with the destination \<^verbatim>\<open>/src/dst\<close>, a descendant of the source.
\<close>

theorem nested_destination_stored:
  "map_of (dirconf (fst (init_plugin example_env (example_plugin [])
       (Some (example_config ''/src:/src/dst''))))) ''/src''
     = Some (Some (PPath ''/'' [''src'', ''dst'']))
   \<and> is_relative_to (PPath ''/'' [''src'', ''dst'']) (Path_of ''/src'')"
  by code_simp

text \<open>
  Claim C6, amended. A configuration line whose destination is equal to or a descendant
  of its own source schedules no watch when it is processed, and its mapping is stored
  in the table all the same. Over the whole of \<^verbatim>\<open>init_plugin\<close>: every watch that is
  scheduled is the watch of the source of some line that has no destination or a
  destination outside its source.
\<close>

theorem nested_destination_not_watched:
  "(split_paths env line = Inr paths \<and> 1 < length paths
      \<and> is_relative_to (Path_of (paths ! 1)) (Path_of (paths ! 0)) \<longrightarrow>
      jobs (fst (init_line env self line)) = jobs self
      \<and> map_of (dirconf (fst (init_line env self line))) (paths ! 0)
          = Some (Some (Path_of (paths ! 1))))
   \<and> (StartMonitor s \<in> set (jobs (fst (init_plugin env self0 config))) \<longrightarrow>
      (\<exists>line \<in> set (split_on CHR 0x0A (monitor_dirs (read_config self0 config))).
         watched_line env line s))"
  using init_line_nested [of env line paths self] init_plugin_jobs [of s env self0 config]
  by blast


theorem nested_destination_not_watched_witness:
  "jobs (fst (init_line example_env (example_plugin []) ''/src:/src/dst''))
     = jobs (example_plugin [])
   \<and> map_of (dirconf (fst (init_line example_env (example_plugin []) ''/src:/src/dst'')))
       ''/src'' = Some (Some (Path_of ''/src/dst''))
   \<and> (\<exists>line \<in> set (split_on CHR 0x0A (''/src:/src/dst'' @ [CHR 0x0A] @ ''/tv:/media'')).
        watched_line example_env line ''/tv'')"
proof -
  let ?dirs = "''/src:/src/dst'' @ [CHR 0x0A] @ ''/tv:/media''"
  have h: "split_paths example_env ''/src:/src/dst'' = Inr [''/src'', ''/src/dst'']
      \<and> 1 < length [''/src'', ''/src/dst'']
      \<and> is_relative_to (Path_of ([''/src'', ''/src/dst''] ! 1))
          (Path_of ([''/src'', ''/src/dst''] ! 0))"
    by code_simp
  have j: "StartMonitor ''/tv''
      \<in> set (jobs (fst (init_plugin example_env (example_plugin []) (Some (example_config ?dirs)))))"
    by code_simp
  have m: "monitor_dirs (read_config (example_plugin []) (Some (example_config ?dirs))) = ?dirs"
    by (simp add: read_config_def example_config_def)
  have n: "[''/src'', ''/src/dst''] ! 0 = ''/src''" "[''/src'', ''/src/dst''] ! 1 = ''/src/dst''"
    by simp_all
  from nested_destination_not_watched [of example_env "''/src:/src/dst''"
      "[''/src'', ''/src/dst'']" "example_plugin []" "''/tv''" "example_plugin []"
      "Some (example_config ?dirs)"] h j
  show ?thesis
    unfolding m n by blast
qed

end
